theory Spec2Isabelle
  imports Main "HOL-Library.Word" "HOL-Library.Multiset"
begin

unbundle bit_operations_syntax

section \<open>Signals and errors\<close>

text \<open>
  A wire value of package \<open>components\<close>: the uninitialised sentinel \<open>&InvalidVal{}\<close>,
  a single bit \<open>&SingleChan{b}\<close>, or a 16-bit vector \<open>&SixteenChan{w}\<close>
  (bit 0 least significant, bit 15 the sign bit).
\<close>

datatype Val = InvalidVal | SingleChan bool | SixteenChan "16 word"

text \<open>
  The failures of section 7 of the specification. The Go signatures carry no error
  result; a failing gate is a branch \<open>Inl e\<close> of the model.
\<close>

datatype error = InvalidWidth | UninitializedSignal

definition bind_err :: "error + 'a \<Rightarrow> ('a \<Rightarrow> error + 'b) \<Rightarrow> error + 'b" where
  "bind_err m k = (case m of Inl e \<Rightarrow> Inl e | Inr v \<Rightarrow> k v)"

text \<open>
  Modelled from the spec: reading a port of width 16 (the declaration of \<open>Val\<close> and the
  gates that consume it are not in the available sources). It accepts a \<open>SixteenChan\<close>;
  \<open>InvalidVal\<close> fails with \<open>UninitializedSignal\<close>, a single bit with \<open>InvalidWidth\<close>
  (section 4.1).
\<close>

fun port16 :: "Val \<Rightarrow> error + 16 word" where
  "port16 InvalidVal = Inl UninitializedSignal"
| "port16 (SingleChan b) = Inl InvalidWidth"
| "port16 (SixteenChan w) = Inr w"

text \<open>
  Modelled from the spec: reading a port of width 1. It accepts a \<open>SingleChan\<close>;
  \<open>InvalidVal\<close> fails with \<open>UninitializedSignal\<close>, a 16-bit vector with \<open>InvalidWidth\<close>.
\<close>

fun port1 :: "Val \<Rightarrow> error + bool" where
  "port1 InvalidVal = Inl UninitializedSignal"
| "port1 (SingleChan b) = Inr b"
| "port1 (SixteenChan w) = Inl InvalidWidth"

text \<open>
  Modelled from the spec: \<open>Val.GetBoolFromUint16(i)\<close>, the method \<open>ALU.Update\<close> calls on
  its result to read bit \<open>i\<close> of a 16-bit vector (bit 0 the least significant).
\<close>

definition GetBoolFromUint16 :: "Val \<Rightarrow> nat \<Rightarrow> error + bool" where
  "GetBoolFromUint16 v i = bind_err (port16 v) (\<lambda>w. Inr (bit w i))"

section \<open>Primitive and composite gates of package components\<close>

text \<open>
  The gates that \<open>ALU.Update\<close> calls (\<open>Mux16\<close>, \<open>Not16\<close>, \<open>And16\<close>, \<open>Add16\<close>,
  \<open>Or8Way\<close>, \<open>Or\<close>, \<open>Not\<close>) are not in the available sources. They are modelled from
  sections 4.2 and 4.3 of the specification: first the functions on bits and words, then
  the \<open>Update\<close> operations on signals.
\<close>

text \<open>Modelled from the spec: the primitive gate NOT(a) = \<open>\<not> a\<close> of section 4.2.\<close>

definition NOT_gate :: "bool \<Rightarrow> bool" where
  "NOT_gate a = (\<not> a)"

text \<open>Modelled from the spec: the primitive gate AND(a,b) = \<open>a \<and> b\<close> of section 4.2.\<close>

definition AND_gate :: "bool \<Rightarrow> bool \<Rightarrow> bool" where
  "AND_gate a b = (a \<and> b)"

text \<open>Modelled from the spec: the primitive gate OR(a,b) = \<open>a \<or> b\<close> of section 4.2.\<close>

definition OR_gate :: "bool \<Rightarrow> bool \<Rightarrow> bool" where
  "OR_gate a b = (a \<or> b)"

text \<open>
  Modelled from the spec: the 1-bit multiplexer of section 4.2,
  MUX(a,b,sel) = OR(AND(a, NOT(sel)), AND(sel,b)), the lane of \<open>Mux16\<close>.
\<close>

definition MUX_gate :: "bool \<Rightarrow> bool \<Rightarrow> bool \<Rightarrow> bool" where
  "MUX_gate a b sel = OR_gate (AND_gate a (NOT_gate sel)) (AND_gate sel b)"

text \<open>
  Modelled from the spec: exclusive or from the primitive gates,
  OR(AND(a, NOT(b)), AND(NOT(a), b)), for the full adder (section 4.3 only says that
  ADD16 is a carry chain of full adders built from primitive gates).
\<close>

definition XOR_gate :: "bool \<Rightarrow> bool \<Rightarrow> bool" where
  "XOR_gate a b = OR_gate (AND_gate a (NOT_gate b)) (AND_gate (NOT_gate a) b)"

text \<open>Modelled from the spec: the sum bit of a full adder.\<close>

definition full_adder_sum :: "bool \<Rightarrow> bool \<Rightarrow> bool \<Rightarrow> bool" where
  "full_adder_sum a b cin = XOR_gate (XOR_gate a b) cin"

text \<open>Modelled from the spec: the carry bit of a full adder.\<close>

definition full_adder_carry :: "bool \<Rightarrow> bool \<Rightarrow> bool \<Rightarrow> bool" where
  "full_adder_carry a b cin = OR_gate (AND_gate a b) (AND_gate cin (XOR_gate a b))"

text \<open>
  Modelled from the spec: a 16-bit vector assembled lane by lane; bit \<open>i\<close> of
  \<open>lanes16 f\<close> is \<open>f i\<close> for \<open>i < 16\<close>.
\<close>

definition lanes16 :: "(nat \<Rightarrow> bool) \<Rightarrow> 16 word" where
  "lanes16 f = horner_sum of_bool 2 (map f [0..<16])"

text \<open>
  Modelled from the spec: the carry into lane \<open>n\<close> of the ripple adder. The carry into
  lane 0 is false; the carry out of lane 15 is dropped (no carry-out flag is exposed).
\<close>

fun carry_in :: "16 word \<Rightarrow> 16 word \<Rightarrow> nat \<Rightarrow> bool" where
  "carry_in a b 0 = False"
| "carry_in a b (Suc n) = full_adder_carry (bit a n) (bit b n) (carry_in a b n)"

text \<open>Modelled from the spec: NOT16 applies NOT to each of the 16 lanes.\<close>

definition NOT16 :: "16 word \<Rightarrow> 16 word" where
  "NOT16 a = lanes16 (\<lambda>i. NOT_gate (bit a i))"

text \<open>Modelled from the spec: AND16 applies AND to each of the 16 lanes.\<close>

definition AND16 :: "16 word \<Rightarrow> 16 word \<Rightarrow> 16 word" where
  "AND16 a b = lanes16 (\<lambda>i. AND_gate (bit a i) (bit b i))"

text \<open>
  Modelled from the spec: MUX16 applies the 1-bit multiplexer to each of the 16 lanes,
  its single select bit governing all of them.
\<close>

definition MUX16 :: "16 word \<Rightarrow> 16 word \<Rightarrow> bool \<Rightarrow> 16 word" where
  "MUX16 a b sel = lanes16 (\<lambda>i. MUX_gate (bit a i) (bit b i) sel)"

text \<open>
  Modelled from the spec: ADD16, the carry chain of 16 full adders; the overflow is
  truncated.
\<close>

definition ADD16 :: "16 word \<Rightarrow> 16 word \<Rightarrow> 16 word" where
  "ADD16 a b = lanes16 (\<lambda>i. full_adder_sum (bit a i) (bit b i) (carry_in a b i))"

text \<open>Modelled from the spec: OR8WAY reduces eight bits to one with OR gates.\<close>

definition OR8WAY ::
  "bool \<Rightarrow> bool \<Rightarrow> bool \<Rightarrow> bool \<Rightarrow> bool \<Rightarrow> bool \<Rightarrow> bool \<Rightarrow> bool \<Rightarrow> bool" where
  "OR8WAY a b c d e f g h =
     OR_gate (OR_gate (OR_gate a b) (OR_gate c d)) (OR_gate (OR_gate e f) (OR_gate g h))"

text \<open>
  The \<open>Update\<close> operations take the signals of their named ports in the order
  \<open>TargetA\<close>, \<open>TargetB\<close>, \<open>TargetSel0\<close> (or \<open>TargetIn\<close>; or \<open>TargetA\<close> to \<open>TargetH\<close>).
  \<open>ALU.Update\<close> supplies every port of a gate on every call, so the result of a gate
  depends on the signals of that call only. A port of the wrong width or an
  uninitialised one fails, as section 4.1 says.
\<close>

text \<open>Modelled from the spec: \<open>Mux16.Update\<close> with the ports A, B and Sel0.\<close>

definition Mux16_Update :: "Val \<Rightarrow> Val \<Rightarrow> Val \<Rightarrow> error + Val" where
  "Mux16_Update a b sel0 =
     bind_err (port16 a) (\<lambda>wa. bind_err (port16 b) (\<lambda>wb. bind_err (port1 sel0) (\<lambda>s.
       Inr (SixteenChan (MUX16 wa wb s)))))"

text \<open>Modelled from the spec: \<open>Not16.Update\<close> with the port In.\<close>

definition Not16_Update :: "Val \<Rightarrow> error + Val" where
  "Not16_Update inp = bind_err (port16 inp) (\<lambda>w. Inr (SixteenChan (NOT16 w)))"

text \<open>Modelled from the spec: \<open>And16.Update\<close> with the ports A and B.\<close>

definition And16_Update :: "Val \<Rightarrow> Val \<Rightarrow> error + Val" where
  "And16_Update a b =
     bind_err (port16 a) (\<lambda>wa. bind_err (port16 b) (\<lambda>wb. Inr (SixteenChan (AND16 wa wb))))"

text \<open>Modelled from the spec: \<open>Add16.Update\<close> with the ports A and B.\<close>

definition Add16_Update :: "Val \<Rightarrow> Val \<Rightarrow> error + Val" where
  "Add16_Update a b =
     bind_err (port16 a) (\<lambda>wa. bind_err (port16 b) (\<lambda>wb. Inr (SixteenChan (ADD16 wa wb))))"

text \<open>Modelled from the spec: \<open>Or8Way.Update\<close> with the ports A to H.\<close>

definition Or8Way_Update ::
  "Val \<Rightarrow> Val \<Rightarrow> Val \<Rightarrow> Val \<Rightarrow> Val \<Rightarrow> Val \<Rightarrow> Val \<Rightarrow> Val \<Rightarrow> error + Val" where
  "Or8Way_Update a b c d e f g h =
     bind_err (port1 a) (\<lambda>ba. bind_err (port1 b) (\<lambda>bb. bind_err (port1 c) (\<lambda>bc.
     bind_err (port1 d) (\<lambda>bd. bind_err (port1 e) (\<lambda>be. bind_err (port1 f) (\<lambda>bf.
     bind_err (port1 g) (\<lambda>bg. bind_err (port1 h) (\<lambda>bh.
       Inr (SingleChan (OR8WAY ba bb bc bd be bf bg bh))))))))))"

text \<open>Modelled from the spec: \<open>Or.Update\<close> with the ports A and B.\<close>

definition Or_Update :: "Val \<Rightarrow> Val \<Rightarrow> error + Val" where
  "Or_Update a b =
     bind_err (port1 a) (\<lambda>ba. bind_err (port1 b) (\<lambda>bb. Inr (SingleChan (OR_gate ba bb))))"

text \<open>Modelled from the spec: \<open>Not.Update\<close> with the port In.\<close>

definition Not_Update :: "Val \<Rightarrow> error + Val" where
  "Not_Update inp = bind_err (port1 inp) (\<lambda>b. Inr (SingleChan (NOT_gate b)))"

section \<open>The ALU (components/alu.go)\<close>

text \<open>
  \<open>type Target\<close> is an integer type; the ALU's own targets are
  \<open>TargetX Target = iota + 100\<close> and the seven constants after it.
\<close>

type_synonym Target = int

definition TargetX :: Target where "TargetX = 100"
definition TargetY :: Target where "TargetY = 101"
definition TargetZeroX :: Target where "TargetZeroX = 102"
definition TargetNegX :: Target where "TargetNegX = 103"
definition TargetZeroY :: Target where "TargetZeroY = 104"
definition TargetNegY :: Target where "TargetNegY = 105"
definition TargetFunc :: Target where "TargetFunc = 106"
definition TargetNegOut :: Target where "TargetNegOut = 107"

record UpdateOpts =
  target :: Target
  val :: Val

text \<open>
  The signal fields of \<open>struct ALU\<close>: the inputs \<open>x\<close>, \<open>y\<close> and the flags \<open>zx\<close>, \<open>nx\<close>,
  \<open>zy\<close>, \<open>ny\<close>, \<open>f\<close>, \<open>no\<close> (prefixed here, a record field being a constant of the
  theory). The gate fields hold no signal between calls and are the functions above.
\<close>

record ALU =
  alu_x :: Val
  alu_y :: Val
  alu_zx :: Val
  alu_nx :: Val
  alu_zy :: Val
  alu_ny :: Val
  alu_f :: Val
  alu_no :: Val

definition NewALU :: ALU where
  "NewALU = \<lparr>alu_x = InvalidVal, alu_y = InvalidVal, alu_zx = InvalidVal, alu_nx = InvalidVal,
     alu_zy = InvalidVal, alu_ny = InvalidVal, alu_f = InvalidVal, alu_no = InvalidVal\<rparr>"

text \<open>
  One iteration of the loop over \<open>opts\<close>: the \<open>switch opt.target\<close> with its eight cases
  and no default.
\<close>

definition ALU_set :: "ALU \<Rightarrow> UpdateOpts \<Rightarrow> ALU" where
  "ALU_set alu opt =
     (if target opt = TargetX then alu\<lparr>alu_x := val opt\<rparr>
      else if target opt = TargetY then alu\<lparr>alu_y := val opt\<rparr>
      else if target opt = TargetZeroX then alu\<lparr>alu_zx := val opt\<rparr>
      else if target opt = TargetNegX then alu\<lparr>alu_nx := val opt\<rparr>
      else if target opt = TargetZeroY then alu\<lparr>alu_zy := val opt\<rparr>
      else if target opt = TargetNegY then alu\<lparr>alu_ny := val opt\<rparr>
      else if target opt = TargetFunc then alu\<lparr>alu_f := val opt\<rparr>
      else if target opt = TargetNegOut then alu\<lparr>alu_no := val opt\<rparr>
      else alu)"

text \<open>
  The body of \<open>ALU.Update\<close> after the loop, on the stored signals: preprocessing of
  \<open>x\<close> and \<open>y\<close>, the function gates, the postprocessing and the status flags, call by
  call as in the source. The result is the triple \<open>(result, zr, ng)\<close>.
\<close>

definition ALU_eval :: "ALU \<Rightarrow> error + Val \<times> Val \<times> Val" where
  "ALU_eval alu =
     bind_err (Mux16_Update (alu_x alu) (SixteenChan 0) (alu_zx alu)) (\<lambda>xZero.
     bind_err (Not16_Update xZero) (\<lambda>xNeg.
     bind_err (Mux16_Update xZero xNeg (alu_nx alu)) (\<lambda>xPreprocessed.
     bind_err (Mux16_Update (alu_y alu) (SixteenChan 0) (alu_zy alu)) (\<lambda>yZero.
     bind_err (Not16_Update yZero) (\<lambda>yNeg.
     bind_err (Mux16_Update yZero yNeg (alu_ny alu)) (\<lambda>yPreprocessed.
     bind_err (Add16_Update xPreprocessed yPreprocessed) (\<lambda>xyAdd.
     bind_err (And16_Update xPreprocessed yPreprocessed) (\<lambda>xyAnd.
     bind_err (Mux16_Update xyAnd xyAdd (alu_f alu)) (\<lambda>xyF.
     bind_err (Not16_Update xyF) (\<lambda>negXy.
     bind_err (Mux16_Update xyF negXy (alu_no alu)) (\<lambda>result.
     bind_err (GetBoolFromUint16 result 15) (\<lambda>ng.
     bind_err (GetBoolFromUint16 result 0) (\<lambda>r0.
     bind_err (GetBoolFromUint16 result 1) (\<lambda>r1.
     bind_err (GetBoolFromUint16 result 2) (\<lambda>r2.
     bind_err (GetBoolFromUint16 result 3) (\<lambda>r3.
     bind_err (GetBoolFromUint16 result 4) (\<lambda>r4.
     bind_err (GetBoolFromUint16 result 5) (\<lambda>r5.
     bind_err (GetBoolFromUint16 result 6) (\<lambda>r6.
     bind_err (GetBoolFromUint16 result 7) (\<lambda>r7.
     bind_err (Or8Way_Update (SingleChan r0) (SingleChan r1) (SingleChan r2) (SingleChan r3)
                 (SingleChan r4) (SingleChan r5) (SingleChan r6) (SingleChan r7)) (\<lambda>loByteOr.
     bind_err (GetBoolFromUint16 result 8) (\<lambda>r8.
     bind_err (GetBoolFromUint16 result 9) (\<lambda>r9.
     bind_err (GetBoolFromUint16 result 10) (\<lambda>r10.
     bind_err (GetBoolFromUint16 result 11) (\<lambda>r11.
     bind_err (GetBoolFromUint16 result 12) (\<lambda>r12.
     bind_err (GetBoolFromUint16 result 13) (\<lambda>r13.
     bind_err (GetBoolFromUint16 result 14) (\<lambda>r14.
     bind_err (GetBoolFromUint16 result 15) (\<lambda>r15.
     bind_err (Or8Way_Update (SingleChan r8) (SingleChan r9) (SingleChan r10) (SingleChan r11)
                 (SingleChan r12) (SingleChan r13) (SingleChan r14) (SingleChan r15)) (\<lambda>hiByteOr.
     bind_err (Or_Update loByteOr hiByteOr) (\<lambda>zrFlag.
     bind_err (Not_Update zrFlag) (\<lambda>zr.
       Inr (result, zr, SingleChan ng)))))))))))))))))))))))))))))))))"

text \<open>
  \<open>ALU.Update(opts...)\<close>: the options overwrite the stored signals in the order given,
  then the pipeline is recomputed. The model returns the ALU with its stored signals
  next to the three results.
\<close>

definition ALU_Update :: "ALU \<Rightarrow> UpdateOpts list \<Rightarrow> ALU \<times> (error + Val \<times> Val \<times> Val)" where
  "ALU_Update alu opts = (let alu' = foldl ALU_set alu opts in (alu', ALU_eval alu'))"

section \<open>The opcode table and the reference pipeline\<close>

text \<open>
  A call of \<open>ALU.Update\<close> that supplies all eight inputs: \<open>x\<close> and \<open>y\<close> as
  \<open>SixteenChan\<close>, the six flags as \<open>SingleChan\<close>.
\<close>

definition alu_inputs ::
  "16 word \<Rightarrow> 16 word \<Rightarrow> bool \<Rightarrow> bool \<Rightarrow> bool \<Rightarrow> bool \<Rightarrow> bool \<Rightarrow> bool \<Rightarrow> UpdateOpts list" where
  "alu_inputs x y zx nx zy ny f no =
     [\<lparr>target = TargetX, val = SixteenChan x\<rparr>, \<lparr>target = TargetY, val = SixteenChan y\<rparr>,
      \<lparr>target = TargetZeroX, val = SingleChan zx\<rparr>, \<lparr>target = TargetNegX, val = SingleChan nx\<rparr>,
      \<lparr>target = TargetZeroY, val = SingleChan zy\<rparr>, \<lparr>target = TargetNegY, val = SingleChan ny\<rparr>,
      \<lparr>target = TargetFunc, val = SingleChan f\<rparr>, \<lparr>target = TargetNegOut, val = SingleChan no\<rparr>]"

text \<open>
  The table in the comment above \<open>ALU.Update\<close> (alu.go, lines 69 to 88), row by row:
  the flags \<open>(zx, nx, zy, ny, f, no)\<close> and the documented output as a function of
  \<open>x\<close> and \<open>y\<close> on 16-bit words.
\<close>

definition opcode_table ::
  "((bool \<times> bool \<times> bool \<times> bool \<times> bool \<times> bool) \<times> (16 word \<Rightarrow> 16 word \<Rightarrow> 16 word)) list" where
  "opcode_table =
     [((True, False, True, False, True, False), \<lambda>x y. 0),
      ((True, True, True, True, True, True), \<lambda>x y. 1),
      ((True, True, True, False, True, False), \<lambda>x y. - 1),
      ((False, False, True, True, False, False), \<lambda>x y. x),
      ((True, True, False, False, False, False), \<lambda>x y. y),
      ((False, False, True, True, False, True), \<lambda>x y. NOT x),
      ((True, True, False, False, False, True), \<lambda>x y. NOT y),
      ((False, False, True, True, True, True), \<lambda>x y. - x),
      ((True, True, False, False, True, True), \<lambda>x y. - y),
      ((False, True, True, True, True, True), \<lambda>x y. x + 1),
      ((True, True, False, True, True, True), \<lambda>x y. y + 1),
      ((False, False, True, True, True, False), \<lambda>x y. x - 1),
      ((True, True, False, False, True, False), \<lambda>x y. y - 1),
      ((False, False, False, False, True, False), \<lambda>x y. x + y),
      ((False, True, False, False, True, True), \<lambda>x y. x - y),
      ((False, False, False, True, True, True), \<lambda>x y. y - x),
      ((False, False, False, False, False, False), \<lambda>x y. x AND y),
      ((False, True, False, True, False, True), \<lambda>x y. x OR y)]"

text \<open>
  The four stages of section 4.5 of the specification, in its words, on 16-bit words:
  zero-conditioning, negate-conditioning, function select, output negation.
\<close>

definition alu_reference ::
  "16 word \<Rightarrow> 16 word \<Rightarrow> bool \<Rightarrow> bool \<Rightarrow> bool \<Rightarrow> bool \<Rightarrow> bool \<Rightarrow> bool \<Rightarrow> 16 word" where
  "alu_reference x y zx nx zy ny f no =
     (let x' = (if zx then 0 else x);
          y' = (if zy then 0 else y);
          x'' = (if nx then NOT x' else x');
          y'' = (if ny then NOT y' else y');
          raw = (if f then x'' + y'' else x'' AND y'')
      in if no then NOT raw else raw)"

text \<open>The case labels of the \<open>switch\<close> in \<open>ALU.Update\<close>.\<close>

definition ALU_targets :: "Target set" where
  "ALU_targets = {TargetX, TargetY, TargetZeroX, TargetNegX, TargetZeroY, TargetNegY,
     TargetFunc, TargetNegOut}"

section \<open>The 1-bit multiplexer (components/combinational/bit/mux.go)\<close>

text \<open>
  A channel is a handle; \<open>nil\<close> is \<open>None\<close>. What a call sends is returned next to its
  value, as the list of (channel, message) pairs in the order sent.
  \<open>components.OrderedVal\<close> has the fields \<open>Val\<close> and \<open>Idx\<close>;
  \<open>components.OrderedVal16\<close> is built positionally from a word and an index.
\<close>

type_synonym chan = nat

record OrderedVal =
  Val :: bool
  Idx :: int

record OrderedVal16 =
  Val16 :: "16 word"
  Idx16 :: int

text \<open>\<open>if c != nil { c <- m }\<close>\<close>

definition send :: "chan option \<Rightarrow> 'm \<Rightarrow> (chan \<times> 'm) list" where
  "send c m = (case c of None \<Rightarrow> [] | Some ch \<Rightarrow> [(ch, m)])"

text \<open>
  The gates \<open>Not\<close>, \<open>And\<close> and \<open>Or\<close> of package \<open>bit\<close>, which \<open>Mux.Update\<close> calls,
  are not in the available sources. Each computes the primitive function of section 4.2
  and, with the calling convention \<open>(inputs, c, idx)\<close> that \<open>Mux.Update\<close> itself has,
  sends its value tagged with \<open>idx\<close> when the channel is not nil.
\<close>

text \<open>Modelled from the spec: \<open>Not.Update(in, c, idx)\<close> of package \<open>bit\<close>.\<close>

definition bit_Not_Update :: "bool \<Rightarrow> chan option \<Rightarrow> int \<Rightarrow> bool \<times> (chan \<times> OrderedVal) list" where
  "bit_Not_Update inp c idx = (let v = (\<not> inp) in (v, send c \<lparr>Val = v, Idx = idx\<rparr>))"

text \<open>Modelled from the spec: \<open>And.Update(a, b, c, idx)\<close> of package \<open>bit\<close>.\<close>

definition bit_And_Update ::
  "bool \<Rightarrow> bool \<Rightarrow> chan option \<Rightarrow> int \<Rightarrow> bool \<times> (chan \<times> OrderedVal) list" where
  "bit_And_Update a b c idx = (let v = (a \<and> b) in (v, send c \<lparr>Val = v, Idx = idx\<rparr>))"

text \<open>Modelled from the spec: \<open>Or.Update(a, b, c, idx)\<close> of package \<open>bit\<close>.\<close>

definition bit_Or_Update ::
  "bool \<Rightarrow> bool \<Rightarrow> chan option \<Rightarrow> int \<Rightarrow> bool \<times> (chan \<times> OrderedVal) list" where
  "bit_Or_Update a b c idx = (let v = (a \<or> b) in (v, send c \<lparr>Val = v, Idx = idx\<rparr>))"

text \<open>\<open>Mux.Update(a, b, sel, c, idx)\<close>, statement by statement.\<close>

definition Mux_Update ::
  "bool \<Rightarrow> bool \<Rightarrow> bool \<Rightarrow> chan option \<Rightarrow> int \<Rightarrow> bool \<times> (chan \<times> OrderedVal) list" where
  "Mux_Update a b sel c idx =
     (let (notSel, s1) = bit_Not_Update sel None 0;
          (aSel, s2) = bit_And_Update a notSel None 0;
          (bSel, s3) = bit_And_Update sel b None 0;
          (v, s4) = bit_Or_Update aSel bSel None 0
      in (v, s1 @ s2 @ s3 @ s4 @ send c \<lparr>Val = v, Idx = idx\<rparr>))"

section \<open>The register (package word)\<close>

text \<open>
  Modelled from the spec: the clocked cell \<open>bit.Bit\<close> of package
  \<open>components/sequential/bit\<close>, whose source is not available. Section 4.4: a Bit
  holds one committed boolean \<open>current\<close> and a staged value \<open>pending\<close>.
\<close>

record Bit =
  current :: bool
  pending :: bool

text \<open>
  Modelled from the spec: \<open>Bit.Update(in, load, c, idx)\<close>. Section 4.4:
  \<open>Update(input, loadEnable)\<close> computes \<open>pending = loadEnable ? input : current\<close> and
  returns \<open>current\<close>, the value before the tick; it never changes \<open>current\<close>. It
  replies exactly once on \<open>c\<close> with its value tagged \<open>idx\<close>.
\<close>

definition Bit_Update ::
  "Bit \<Rightarrow> bool \<Rightarrow> bool \<Rightarrow> chan option \<Rightarrow> int \<Rightarrow> Bit \<times> bool \<times> (chan \<times> OrderedVal) list" where
  "Bit_Update b inp load c idx =
     (b\<lparr>pending := (if load then inp else current b)\<rparr>, current b,
      send c \<lparr>Val = current b, Idx = idx\<rparr>)"

text \<open>
  Modelled from the spec: \<open>Bit.Tick()\<close>. Section 4.4: the transition occurs only on
  Tick, which moves \<open>current\<close> to the value staged as \<open>pending\<close>.
\<close>

definition Bit_Tick :: "Bit \<Rightarrow> Bit" where
  "Bit_Tick b = b\<lparr>current := pending b\<rparr>"

text \<open>
  Modelled from the spec: \<open>util.GetBoolFromUint16(in, i)\<close>, bit \<open>i\<close> of the word
  \<open>in\<close> (package \<open>util\<close> is not in the available sources).
\<close>

definition util_GetBoolFromUint16 :: "16 word \<Rightarrow> 16 word \<Rightarrow> bool" where
  "util_GetBoolFromUint16 w i = bit w (unat i)"

text \<open>
  \<open>struct Register\<close>: the array of 16 Bits (a list here, of length 16 for every
  register \<open>NewRegister\<close> builds) and the register's own unbuffered channel \<open>c\<close>.
\<close>

record Register =
  reg_bits :: "Bit list"
  reg_c :: chan

text \<open>
  The receive loop of \<open>Register.Update\<close>: \<open>n\<close> more receives from the queue of
  replies that arrive on \<open>reg.c\<close>, in their order of arrival. A received reply with
  \<open>Val\<close> true sets \<open>outVal |= 1 << uint16(d1.Idx)\<close>; the shift is a \<open>uint16\<close> shift, so
  a count of 16 or more contributes nothing. A receive with no reply left blocks for
  ever: the loop does not return (\<open>None\<close>).
\<close>

fun recv_loop :: "nat \<Rightarrow> OrderedVal list \<Rightarrow> 16 word \<Rightarrow> 16 word option" where
  "recv_loop 0 q outVal = Some outVal"
| "recv_loop (Suc n) [] outVal = None"
| "recv_loop (Suc n) (d1 # q) outVal =
     recv_loop n q (if Val d1 then outVal OR push_bit (unat (word_of_int (Idx d1) :: 16 word)) 1
                    else outVal)"

text \<open>
  \<open>Register.Update(in, load, c, idx)\<close>. The 16 goroutines, one per Bit, each run
  \<open>bit.Update\<close> on their own Bit with bit \<open>i\<close> of \<open>in\<close>, the shared \<open>load\<close>, the
  register's channel and the lane index. The order in which their replies arrive is
  the scheduler's choice, the extra argument \<open>sched\<close>: the lanes in order of arrival.
  Then 16 replies are received and the word is forwarded on \<open>c\<close> when it is not nil.
  The result is the register with its updated Bits, the word returned and what was
  sent on \<open>c\<close>; \<open>None\<close> when the call never returns.
\<close>

definition Register_Update ::
  "Register \<Rightarrow> 16 word \<Rightarrow> bool \<Rightarrow> chan option \<Rightarrow> int \<Rightarrow> nat list \<Rightarrow>
     (Register \<times> 16 word \<times> (chan \<times> OrderedVal16) list) option" where
  "Register_Update reg inp load c idx sched =
     (let lanes = map (\<lambda>(i, b). Bit_Update b (util_GetBoolFromUint16 inp (word_of_nat i)) load
                                   (Some (reg_c reg)) (int i))
                      (enumerate 0 (reg_bits reg));
          sent = map (\<lambda>l. snd (snd l)) lanes;
          arrivals = concat (map (\<lambda>i. if i < length sent then sent ! i else []) sched)
      in case recv_loop 16 (map snd (filter (\<lambda>m. fst m = reg_c reg) arrivals)) 0 of
           None \<Rightarrow> None
         | Some outVal \<Rightarrow>
             Some (reg\<lparr>reg_bits := map fst lanes\<rparr>, outVal,
                   send c \<lparr>Val16 = outVal, Idx16 = idx\<rparr>))"

text \<open>\<open>Register.Tick()\<close>: every Bit ticks.\<close>

definition Register_Tick :: "Register \<Rightarrow> Register" where
  "Register_Tick reg = reg\<lparr>reg_bits := map Bit_Tick (reg_bits reg)\<rparr>"

section \<open>Properties\<close>

subsection \<open>The 16-wide gates compute the word operations\<close>

lemma full_adder_sum_eq: "full_adder_sum a b c = ((a \<noteq> b) \<noteq> c)"
  by (auto simp add: full_adder_sum_def XOR_gate_def AND_gate_def OR_gate_def NOT_gate_def)

lemma full_adder_carry_eq: "full_adder_carry a b c = ((a \<and> b) \<or> (c \<and> (a \<or> b)))"
  by (auto simp add: full_adder_carry_def XOR_gate_def AND_gate_def OR_gate_def NOT_gate_def)

lemma bit_lanes16: "bit (lanes16 f) n \<longleftrightarrow> n < 16 \<and> f n"
  by (auto simp add: lanes16_def bit_horner_sum_bit_word_iff)

lemma carry_in_unat:
  "carry_in a b n \<longleftrightarrow> 2 ^ n \<le> take_bit n (unat a) + take_bit n (unat b)"
proof (induction n)
  case 0
  show ?case by simp
next
  case (Suc n)
  define ta tb where "ta = take_bit n (unat a)" and "tb = take_bit n (unat b)"
  have la: "ta < 2 ^ n" and lb: "tb < 2 ^ n"
    by (simp_all add: ta_def tb_def)
  have sa: "take_bit (Suc n) (unat a) = 2 ^ n * of_bool (bit a n) + ta"
    and sb: "take_bit (Suc n) (unat b) = 2 ^ n * of_bool (bit b n) + tb"
    by (simp_all add: take_bit_Suc_from_most bit_unsigned_iff ta_def tb_def)
  have ih: "carry_in a b n \<longleftrightarrow> 2 ^ n \<le> ta + tb"
    using Suc.IH by (simp add: ta_def tb_def)
  show ?case
    unfolding carry_in.simps full_adder_carry_eq sa sb ih
    using la lb by (cases "bit a n"; cases "bit b n") simp_all
qed

lemma bit_nat_add:
  "bit (x + y) n \<longleftrightarrow> ((bit x n \<noteq> bit y n) \<noteq> (2 ^ n \<le> take_bit n x + take_bit n y))"
  for x y :: nat
proof -
  define tx ty where "tx = take_bit n x" and "ty = take_bit n y"
  define qx qy where "qx = x div 2 ^ n" and "qy = y div 2 ^ n"
  have x: "x = qx * 2 ^ n + tx" and y: "y = qy * 2 ^ n + ty"
    by (simp_all add: tx_def ty_def qx_def qy_def take_bit_eq_mod div_mult_mod_eq)
  have lt: "tx < 2 ^ n" "ty < 2 ^ n"
    by (simp_all add: tx_def ty_def)
  have s: "x + y = (qx + qy) * 2 ^ n + (tx + ty)"
    by (simp add: x y algebra_simps)
  have d: "(tx + ty) div 2 ^ n = of_bool (2 ^ n \<le> tx + ty)"
  proof (cases "2 ^ n \<le> tx + ty")
    case True
    then have "(tx + ty) div 2 ^ n = 1"
      using lt by (intro div_nat_eqI) simp_all
    with True show ?thesis by simp
  next
    case False
    then show ?thesis by simp
  qed
  have "(x + y) div 2 ^ n = qx + qy + of_bool (2 ^ n \<le> tx + ty)"
    by (simp add: s d)
  then have "odd ((x + y) div 2 ^ n) \<longleftrightarrow> ((odd qx \<noteq> odd qy) \<noteq> (2 ^ n \<le> tx + ty))"
    by auto
  then show ?thesis
    unfolding bit_iff_odd qx_def qy_def tx_def ty_def .
qed

lemma ADD16_eq: "ADD16 a b = a + b"
proof (rule bit_word_eqI)
  fix n assume "n < LENGTH(16)"
  then have n: "n < 16" by simp
  have "unat (a + b) = take_bit 16 (unat a + unat b)"
    by (simp add: unat_word_ariths take_bit_eq_mod)
  then have "bit (unat (a + b)) n = bit (unat a + unat b) n"
    using n by (simp add: bit_take_bit_iff)
  then have "bit (a + b) n = bit (unat a + unat b) n"
    by (simp add: bit_unsigned_iff)
  then show "bit (ADD16 a b) n = bit (a + b) n"
    using n by (simp add: ADD16_def bit_lanes16 full_adder_sum_eq carry_in_unat bit_nat_add bit_unsigned_iff)
qed

lemma NOT16_eq: "NOT16 a = NOT a"
  by (rule bit_word_eqI) (auto simp add: NOT16_def bit_lanes16 NOT_gate_def bit_not_iff)

lemma AND16_eq: "AND16 a b = a AND b"
  by (rule bit_word_eqI) (auto simp add: AND16_def bit_lanes16 AND_gate_def bit_and_iff)

lemma MUX16_eq: "MUX16 a b sel = (if sel then b else a)"
  by (rule bit_word_eqI) (auto simp add: MUX16_def bit_lanes16 MUX_gate_def AND_gate_def OR_gate_def NOT_gate_def)

lemma lt16_mem: "n < 16 \<Longrightarrow> n \<in> {0, 1, 2, 3, 4, 5, 6, 7, 8, 9, 10, 11, 12, 13, 14, 15 :: nat}"
  by simp arith

lemma word16_zero_iff:
  "w = 0 \<longleftrightarrow>
     \<not> (bit w 0 \<or> bit w 1 \<or> bit w 2 \<or> bit w 3 \<or> bit w 4 \<or> bit w 5 \<or> bit w 6 \<or> bit w 7 \<or>
        bit w 8 \<or> bit w 9 \<or> bit w 10 \<or> bit w 11 \<or> bit w 12 \<or> bit w 13 \<or> bit w 14 \<or> bit w 15)"
  (is "_ \<longleftrightarrow> \<not> ?any")
  for w :: "16 word"
proof
  assume "w = 0"
  then show "\<not> ?any"
    by simp
next
  assume h: "\<not> ?any"
  show "w = 0"
  proof (rule bit_word_eqI)
    fix n assume "n < LENGTH(16)"
    then have "n < 16" by simp
    from lt16_mem [OF this] h show "bit w n = bit (0 :: 16 word) n"
      by auto
  qed
qed

lemma OR8WAY_eq: "OR8WAY a b c d e f g h = (a \<or> b \<or> c \<or> d \<or> e \<or> f \<or> g \<or> h)"
  by (simp add: OR8WAY_def OR_gate_def)

subsection \<open>The gates on initialised signals\<close>

lemma Mux16_Update_valid:
  "Mux16_Update (SixteenChan a) (SixteenChan b) (SingleChan s) = Inr (SixteenChan (if s then b else a))"
  by (simp add: Mux16_Update_def bind_err_def MUX16_eq)

lemma Not16_Update_valid: "Not16_Update (SixteenChan a) = Inr (SixteenChan (NOT a))"
  by (simp add: Not16_Update_def bind_err_def NOT16_eq)

lemma And16_Update_valid: "And16_Update (SixteenChan a) (SixteenChan b) = Inr (SixteenChan (a AND b))"
  by (simp add: And16_Update_def bind_err_def AND16_eq)

lemma Add16_Update_valid: "Add16_Update (SixteenChan a) (SixteenChan b) = Inr (SixteenChan (a + b))"
  by (simp add: Add16_Update_def bind_err_def ADD16_eq)

lemma Or8Way_Update_valid:
  "Or8Way_Update (SingleChan a) (SingleChan b) (SingleChan c) (SingleChan d)
     (SingleChan e) (SingleChan f) (SingleChan g) (SingleChan h) =
   Inr (SingleChan (a \<or> b \<or> c \<or> d \<or> e \<or> f \<or> g \<or> h))"
  by (simp add: Or8Way_Update_def bind_err_def OR8WAY_eq)

lemma Or_Update_valid: "Or_Update (SingleChan a) (SingleChan b) = Inr (SingleChan (a \<or> b))"
  by (simp add: Or_Update_def bind_err_def OR_gate_def)

lemma Not_Update_valid: "Not_Update (SingleChan a) = Inr (SingleChan (\<not> a))"
  by (simp add: Not_Update_def bind_err_def NOT_gate_def)

lemma GetBoolFromUint16_valid: "GetBoolFromUint16 (SixteenChan w) i = Inr (bit w i)"
  by (simp add: GetBoolFromUint16_def bind_err_def)

lemma bind_err_Inr: "bind_err (Inr v) k = k v"
  by (simp add: bind_err_def)

lemmas gate_valid = Mux16_Update_valid Not16_Update_valid And16_Update_valid Add16_Update_valid
  Or8Way_Update_valid Or_Update_valid Not_Update_valid GetBoolFromUint16_valid bind_err_Inr

lemma ALU_eval_valid:
  assumes "alu_x alu = SixteenChan x" "alu_y alu = SixteenChan y"
    "alu_zx alu = SingleChan zx" "alu_nx alu = SingleChan nx"
    "alu_zy alu = SingleChan zy" "alu_ny alu = SingleChan ny"
    "alu_f alu = SingleChan f" "alu_no alu = SingleChan no"
  shows "ALU_eval alu =
    Inr (SixteenChan (alu_reference x y zx nx zy ny f no),
         SingleChan (alu_reference x y zx nx zy ny f no = 0),
         SingleChan (bit (alu_reference x y zx nx zy ny f no) 15))"
  unfolding ALU_eval_def assms gate_valid
  by (simp add: alu_reference_def Let_def word16_zero_iff del: bit_0)

subsection \<open>The multiplexer and the receive loop\<close>

lemma Mux_Update_eq:
  "Mux_Update a b sel c idx = ((if sel then b else a), send c \<lparr>Val = (if sel then b else a), Idx = idx\<rparr>)"
  by (cases sel; cases c) (simp_all add: Mux_Update_def bit_Not_Update_def bit_And_Update_def bit_Or_Update_def send_def)

lemma bit_or_push_bit_1:
  "bit (w OR 2 ^ k) i \<longleftrightarrow> bit w i \<or> (i < 16 \<and> i = k)"
  for w :: "16 word"
  by (auto simp add: bit_or_iff bit_exp_iff)

lemma recv_loop_bits:
  "length q = n \<Longrightarrow>
     \<exists>w. recv_loop n q acc = Some w \<and>
         (\<forall>i. bit w i \<longleftrightarrow>
            bit acc i \<or> (i < 16 \<and> (\<exists>d\<in>set q. Val d \<and> unat (word_of_int (Idx d) :: 16 word) = i)))"
proof (induction q arbitrary: n acc)
  case Nil
  then show ?case by simp
next
  case (Cons d q)
  then obtain m where n: "n = Suc m" and m: "length q = m"
    by (cases n) auto
  define acc' where "acc' = (if Val d then acc OR push_bit (unat (word_of_int (Idx d) :: 16 word)) 1 else acc)"
  from Cons.IH [OF m, of acc'] obtain w where
    w: "recv_loop m q acc' = Some w"
    and b: "\<And>i. bit w i \<longleftrightarrow>
            bit acc' i \<or> (i < 16 \<and> (\<exists>d\<in>set q. Val d \<and> unat (word_of_int (Idx d) :: 16 word) = i))"
    by blast
  have a: "bit acc' i \<longleftrightarrow> bit acc i \<or> (i < 16 \<and> Val d \<and> unat (word_of_int (Idx d) :: 16 word) = i)" for i
    by (auto simp add: acc'_def bit_or_push_bit_1)
  have "recv_loop n (d # q) acc = Some w"
    using w by (simp add: n acc'_def)
  moreover have "\<forall>i. bit w i \<longleftrightarrow>
            bit acc i \<or> (i < 16 \<and> (\<exists>e\<in>set (d # q). Val e \<and> unat (word_of_int (Idx e) :: 16 word) = i))"
    by (auto simp add: a b)
  ultimately show ?case by blast
qed

lemma recv_loop_perm:
  assumes "mset (map Idx rs) = mset (map int [0..<16])"
  shows "\<exists>w. recv_loop 16 rs 0 = Some w \<and>
           (\<forall>i<16. bit w i \<longleftrightarrow> \<lparr>Val = True, Idx = int i\<rparr> \<in> set rs)"
proof -
  have len: "length rs = 16"
    using mset_eq_length [OF assms] by simp
  have idx: "set (map Idx rs) = set (map int [0..<16])"
    using mset_eq_setD [OF assms] .
  from recv_loop_bits [OF len, of 0] obtain w where
    w: "recv_loop 16 rs 0 = Some w"
    and b: "\<And>i. bit w i \<longleftrightarrow>
              (i < 16 \<and> (\<exists>d\<in>set rs. Val d \<and> unat (word_of_int (Idx d) :: 16 word) = i))"
    by auto
  have "bit w i \<longleftrightarrow> \<lparr>Val = True, Idx = int i\<rparr> \<in> set rs" if i: "i < 16" for i
  proof
    assume "bit w i"
    then obtain d where d: "d \<in> set rs" "Val d" "unat (word_of_int (Idx d) :: 16 word) = i"
      using b by blast
    from d(1) have "Idx d \<in> set (map Idx rs)" by simp
    then obtain j where j: "j < 16" "Idx d = int j"
      unfolding idx by auto
    have "unat (word_of_int (Idx d) :: 16 word) = j"
      using j by (simp add: unat_of_nat)
    with d(3) have "Idx d = int i" using j by simp
    with d(2) have "d = \<lparr>Val = True, Idx = int i\<rparr>" by simp
    with d(1) show "\<lparr>Val = True, Idx = int i\<rparr> \<in> set rs" by simp
  next
    assume m: "\<lparr>Val = True, Idx = int i\<rparr> \<in> set rs"
    have "unat (word_of_int (int i) :: 16 word) = i"
      using i by (simp add: unat_of_nat)
    with m i show "bit w i"
      unfolding b by force
  qed
  with w show ?thesis by blast
qed

lemma recv_loop_order:
  assumes "mset (map Idx rs) = mset (map int [0..<16])" and "mset rs' = mset rs"
  shows "recv_loop 16 rs' 0 = recv_loop 16 rs 0"
proof -
  have p': "mset (map Idx rs') = mset (map int [0..<16])"
    using assms by (metis mset_map)
  have s: "set rs' = set rs"
    using assms(2) by (rule mset_eq_setD)
  from recv_loop_perm [OF assms(1)] obtain w where
    w: "recv_loop 16 rs 0 = Some w" "\<And>i. i < 16 \<Longrightarrow> bit w i \<longleftrightarrow> \<lparr>Val = True, Idx = int i\<rparr> \<in> set rs"
    by blast
  from recv_loop_perm [OF p'] obtain w' where
    w': "recv_loop 16 rs' 0 = Some w'" "\<And>i. i < 16 \<Longrightarrow> bit w' i \<longleftrightarrow> \<lparr>Val = True, Idx = int i\<rparr> \<in> set rs'"
    by blast
  have "w' = w"
    by (rule bit_word_eqI) (simp add: w(2) w'(2) s)
  with w(1) w'(1) show ?thesis by simp
qed

subsection \<open>A returning call of Register.Update\<close>

lemma Register_Update_result:
  assumes len: "length (reg_bits reg) = 16" and sched: "mset sched = mset [0..<16]"
  shows "Register_Update reg inp load c idx sched =
     Some (reg\<lparr>reg_bits := map (\<lambda>(i, b). b\<lparr>pending := (if load then bit inp i else current b)\<rparr>)
                                (enumerate 0 (reg_bits reg))\<rparr>,
           horner_sum of_bool 2 (map current (reg_bits reg)),
           send c \<lparr>Val16 = horner_sum of_bool 2 (map current (reg_bits reg)), Idx16 = idx\<rparr>)"
proof -
  define lanes where "lanes = map (\<lambda>(i, b). Bit_Update b (util_GetBoolFromUint16 inp (word_of_nat i)) load
                                   (Some (reg_c reg)) (int i)) (enumerate 0 (reg_bits reg))"
  define sent where "sent = map (\<lambda>l. snd (snd l)) lanes"
  define arrivals where "arrivals = concat (map (\<lambda>i. if i < length sent then sent ! i else []) sched)"
  define rs where "rs = map snd (filter (\<lambda>m. fst m = reg_c reg) arrivals)"
  have set_sched: "set sched = {0..<16}"
    using mset_eq_setD [OF sched] by simp
  have lsent: "length sent = 16"
    by (simp add: sent_def lanes_def len)
  have sent_nth: "sent ! i = [(reg_c reg, \<lparr>Val = current (reg_bits reg ! i), Idx = int i\<rparr>)]"
    if "i < 16" for i
    using that by (simp add: sent_def lanes_def len nth_enumerate_eq Bit_Update_def send_def)
  have m: "map (\<lambda>i. if i < length sent then sent ! i else []) sched =
        map (\<lambda>i. [(reg_c reg, \<lparr>Val = current (reg_bits reg ! i), Idx = int i\<rparr>)]) sched"
    by (rule map_cong) (auto simp add: lsent sent_nth set_sched)
  have arr: "arrivals = map (\<lambda>i. (reg_c reg, \<lparr>Val = current (reg_bits reg ! i), Idx = int i\<rparr>)) sched"
    unfolding arrivals_def m by simp
  have rs: "rs = map (\<lambda>i. \<lparr>Val = current (reg_bits reg ! i), Idx = int i\<rparr>) sched"
    by (simp add: rs_def arr filter_map comp_def)
  have "mset (map Idx rs) = mset (map int sched)"
    by (simp add: rs comp_def)
  also have "\<dots> = mset (map int [0..<16])"
    using sched by (metis mset_map)
  finally have p: "mset (map Idx rs) = mset (map int [0..<16])" .
  from recv_loop_perm [OF p] obtain w where
    w: "recv_loop 16 rs 0 = Some w"
    and b: "\<And>i. i < 16 \<Longrightarrow> bit w i \<longleftrightarrow> \<lparr>Val = True, Idx = int i\<rparr> \<in> set rs"
    by blast
  have "bit w i \<longleftrightarrow> current (reg_bits reg ! i)" if "i < 16" for i
    using that by (auto simp add: b rs set_sched)
  then have weq: "w = horner_sum of_bool 2 (map current (reg_bits reg))"
    by (intro bit_word_eqI) (simp add: bit_horner_sum_bit_word_iff len)
  have bits: "map fst lanes = map (\<lambda>(i, b). b\<lparr>pending := (if load then bit inp i else current b)\<rparr>)
                                (enumerate 0 (reg_bits reg))"
  proof (rule nth_equalityI)
    show "length (map fst lanes) = length (map (\<lambda>(i, b). b\<lparr>pending := (if load then bit inp i else current b)\<rparr>)
                                (enumerate 0 (reg_bits reg)))"
      by (simp add: lanes_def)
  next
    fix i assume "i < length (map fst lanes)"
    then have i: "i < 16" by (simp add: lanes_def len)
    then have "unat (word_of_nat i :: 16 word) = i"
      by (simp add: unat_of_nat)
    then show "map fst lanes ! i = map (\<lambda>(i, b). b\<lparr>pending := (if load then bit inp i else current b)\<rparr>)
                                (enumerate 0 (reg_bits reg)) ! i"
      using i by (simp add: lanes_def len nth_enumerate_eq Bit_Update_def util_GetBoolFromUint16_def)
  qed
  have "Register_Update reg inp load c idx sched =
     (case recv_loop 16 rs 0 of None \<Rightarrow> None
      | Some outVal \<Rightarrow> Some (reg\<lparr>reg_bits := map fst lanes\<rparr>, outVal, send c \<lparr>Val16 = outVal, Idx16 = idx\<rparr>))"
    unfolding Register_Update_def Let_def rs_def arrivals_def sent_def lanes_def ..
  then show ?thesis
    by (simp add: w weq bits)
qed

subsection \<open>A call of ALU.Update with all eight inputs\<close>

lemmas Target_defs = TargetX_def TargetY_def TargetZeroX_def TargetNegX_def TargetZeroY_def
  TargetNegY_def TargetFunc_def TargetNegOut_def

lemma ALU_set_inputs:
  "foldl ALU_set alu (alu_inputs x y zx nx zy ny f no) =
     alu\<lparr>alu_x := SixteenChan x, alu_y := SixteenChan y, alu_zx := SingleChan zx,
       alu_nx := SingleChan nx, alu_zy := SingleChan zy, alu_ny := SingleChan ny,
       alu_f := SingleChan f, alu_no := SingleChan no\<rparr>"
  by (simp add: alu_inputs_def ALU_set_def Target_defs)

lemma ALU_Update_inputs:
  "snd (ALU_Update alu (alu_inputs x y zx nx zy ny f no)) =
     Inr (SixteenChan (alu_reference x y zx nx zy ny f no),
          SingleChan (alu_reference x y zx nx zy ny f no = 0),
          SingleChan (bit (alu_reference x y zx nx zy ny f no) 15))"
  unfolding ALU_Update_def Let_def snd_conv ALU_set_inputs
  by (rule ALU_eval_valid) simp_all

lemma opcode_table_reference:
  "((zx, nx, zy, ny, f, no), fn) \<in> set opcode_table \<Longrightarrow>
     alu_reference x y zx nx zy ny f no = fn x y"
  unfolding opcode_table_def
  by (auto simp add: alu_reference_def) (simp_all add: not_eq_complement)

subsection \<open>The ALU\<close>

text \<open>
  C1. The opcode table has 18 rows, and for every row and every pair of 16-bit inputs
  \<open>x\<close> and \<open>y\<close>, \<open>ALU.Update\<close> called with that row's six flags returns as its first
  result exactly the row's documented function of \<open>x\<close> and \<open>y\<close>, in 16-bit two's
  complement arithmetic, whatever signals the ALU held before the call.
\<close>

theorem ALU_Update_opcode_table:
  "length opcode_table = 18 \<and>
   (\<forall>((zx, nx, zy, ny, f, no), fn) \<in> set opcode_table. \<forall>alu x y. \<exists>zr ng.
      snd (ALU_Update alu (alu_inputs x y zx nx zy ny f no)) = Inr (SixteenChan (fn x y), zr, ng))"
proof
  show "length opcode_table = 18"
    by (simp add: opcode_table_def)
next
  show "\<forall>((zx, nx, zy, ny, f, no), fn) \<in> set opcode_table. \<forall>alu x y. \<exists>zr ng.
      snd (ALU_Update alu (alu_inputs x y zx nx zy ny f no)) = Inr (SixteenChan (fn x y), zr, ng)"
  proof (clarify)
    fix zx nx zy ny f no fn alu x y
    assume "((zx, nx, zy, ny, f, no), fn) \<in> set opcode_table"
    then have "alu_reference x y zx nx zy ny f no = fn x y"
      by (rule opcode_table_reference)
    then show "\<exists>zr ng. snd (ALU_Update alu (alu_inputs x y zx nx zy ny f no)) =
        Inr (SixteenChan (fn x y), zr, ng)"
      using ALU_Update_inputs [of alu x y zx nx zy ny f no] by simp
  qed
qed

text \<open>The row \<open>x-y\<close> of the table at \<open>x = 5\<close>, \<open>y = 7\<close>.\<close>

theorem ALU_Update_opcode_table_witness:
  "((False, True, False, False, True, True), (\<lambda>x y. x - y)) \<in> set opcode_table \<and>
   (\<exists>zr ng. snd (ALU_Update NewALU (alu_inputs 5 7 False True False False True True)) =
      Inr (SixteenChan (5 - 7), zr, ng))"
proof -
  have m: "((False, True, False, False, True, True), (\<lambda>x y. x - y)) \<in> set opcode_table"
    by (simp add: opcode_table_def)
  from ALU_Update_opcode_table [THEN conjunct2, THEN bspec, OF m]
  have "\<forall>alu x y. \<exists>zr ng.
      snd (ALU_Update alu (alu_inputs x y False True False False True True)) =
        Inr (SixteenChan (x - y), zr, ng)"
    by simp
  then have "\<exists>zr ng. snd (ALU_Update NewALU (alu_inputs 5 7 False True False False True True)) =
      Inr (SixteenChan (5 - 7), zr, ng)"
    by blast
  with m show ?thesis by blast
qed

text \<open>
  C2. For every 16-bit \<open>x\<close> and \<open>y\<close> and every combination of the six flags, the first
  result of \<open>ALU.Update\<close> is the four-stage reference computation: zero-conditioning,
  negate-conditioning, function select (16-bit addition or bitwise and), output negation.
\<close>

theorem ALU_Update_reference:
  "\<exists>zr ng. snd (ALU_Update alu (alu_inputs x y zx nx zy ny f no)) =
     Inr (SixteenChan (alu_reference x y zx nx zy ny f no), zr, ng)"
  using ALU_Update_inputs [of alu x y zx nx zy ny f no] by simp

text \<open>
  C3. For every 16-bit \<open>x\<close> and \<open>y\<close> and every flag combination, the second result of
  \<open>ALU.Update\<close> (\<open>zr\<close>) is true exactly when the output word is \<open>0x0000\<close>, and the third
  (\<open>ng\<close>) is bit 15 of the output word, which is set exactly when the output is negative
  as a two's complement number.
\<close>

theorem ALU_Update_flags:
  "\<exists>out. snd (ALU_Update alu (alu_inputs x y zx nx zy ny f no)) =
       Inr (SixteenChan out, SingleChan (out = 0), SingleChan (bit out 15)) \<and>
     bit out 15 = (sint out < 0)"
proof -
  have "bit out 15 = (sint out < 0)" for out :: "16 word"
    using bit_last_iff [of out] by simp
  then show ?thesis
    using ALU_Update_inputs [of alu x y zx nx zy ny f no] by blast
qed

text \<open>
  C4. Addition in the ALU wraps modulo \<open>2^16\<close> and nothing reports the overflow: with
  \<open>x = 0x7FFF\<close>, \<open>y = 0x0001\<close> and the flags of \<open>x+y\<close>, \<open>ALU.Update\<close> returns the output
  \<open>0x8000\<close> with \<open>zr\<close> false and \<open>ng\<close> true; for all \<open>x\<close> and \<open>y\<close> the output of
  \<open>x+y\<close> is the sum of the unsigned values modulo \<open>2^16\<close>.
\<close>

theorem ALU_Update_add_wraps:
  "snd (ALU_Update alu (alu_inputs 0x7FFF 0x0001 False False False False True False)) =
     Inr (SixteenChan 0x8000, SingleChan False, SingleChan True) \<and>
   (\<exists>out zr ng. snd (ALU_Update alu (alu_inputs x y False False False False True False)) =
       Inr (SixteenChan out, zr, ng) \<and> unat out = (unat x + unat y) mod 2 ^ 16)"
proof
  show "snd (ALU_Update alu (alu_inputs 0x7FFF 0x0001 False False False False True False)) =
     Inr (SixteenChan 0x8000, SingleChan False, SingleChan True)"
    by (simp add: ALU_Update_inputs alu_reference_def)
next
  have "unat (alu_reference x y False False False False True False) = (unat x + unat y) mod 2 ^ 16"
    by (simp add: alu_reference_def unat_word_ariths)
  then show "\<exists>out zr ng. snd (ALU_Update alu (alu_inputs x y False False False False True False)) =
       Inr (SixteenChan out, zr, ng) \<and> unat out = (unat x + unat y) mod 2 ^ 16"
    using ALU_Update_inputs [of alu x y False False False False True False] by blast
qed

subsection \<open>The 1-bit multiplexer\<close>

text \<open>
  C5. For all booleans \<open>a\<close>, \<open>b\<close> and \<open>sel\<close>, \<open>Mux.Update(a, b, sel)\<close> returns
  OR(AND(a, NOT(sel)), AND(sel, b)), both as the formula of the specification and as the
  composition of the three gates it calls; in particular it returns \<open>a\<close> when \<open>sel\<close> is
  false and \<open>b\<close> when \<open>sel\<close> is true.
\<close>

theorem Mux_Update_value:
  "fst (Mux_Update a b sel c idx) = MUX_gate a b sel \<and>
   fst (Mux_Update a b sel c idx) =
     fst (bit_Or_Update (fst (bit_And_Update a (fst (bit_Not_Update sel None 0)) None 0))
            (fst (bit_And_Update sel b None 0)) None 0) \<and>
   fst (Mux_Update a b False c idx) = a \<and>
   fst (Mux_Update a b True c idx) = b"
  by (cases sel) (simp_all add: Mux_Update_eq MUX_gate_def OR_gate_def AND_gate_def NOT_gate_def
      bit_Not_Update_def bit_And_Update_def bit_Or_Update_def)

subsection \<open>Options with a target the ALU does not know\<close>

lemma ALU_set_foreign: "target opt \<notin> ALU_targets \<Longrightarrow> ALU_set alu opt = alu"
  by (simp add: ALU_set_def ALU_targets_def)

text \<open>
  C8, as the code has it. \<open>ALU.Update\<close> acts on its own eight targets only; an option
  whose target is none of them is not rejected but ignored: the call stores nothing
  for it and returns exactly what it returns without that option.
\<close>

theorem ALU_Update_ignores_foreign_target:
  "target opt \<notin> ALU_targets \<Longrightarrow> ALU_Update alu (pre @ opt # post) = ALU_Update alu (pre @ post)"
  by (simp add: ALU_Update_def ALU_set_foreign)

text \<open>An option with target 0 after an option for \<open>TargetX\<close>.\<close>

theorem ALU_Update_ignores_foreign_target_witness:
  "target \<lparr>target = 0, val = InvalidVal\<rparr> \<notin> ALU_targets \<and>
   ALU_Update NewALU ([\<lparr>target = TargetX, val = SixteenChan 3\<rparr>] @ \<lparr>target = 0, val = InvalidVal\<rparr> # []) =
   ALU_Update NewALU ([\<lparr>target = TargetX, val = SixteenChan 3\<rparr>] @ [])"
proof -
  have h: "target \<lparr>target = 0, val = InvalidVal\<rparr> \<notin> ALU_targets"
    by (simp add: ALU_targets_def Target_defs)
  from ALU_Update_ignores_foreign_target [OF h] h show ?thesis by blast
qed

text \<open>
  C8 as stated fails: a call that supplies the eight inputs of \<open>0x7FFF + 1\<close> and then an
  option with target 0, which is none of the ALU's targets, is not rejected. It returns
  the results of the addition, and the same ALU and results as the call without the
  option.
\<close>

theorem ALU_Update_rejects_counterexample:
  "target \<lparr>target = 0, val = SixteenChan 5\<rparr> \<notin> ALU_targets \<and>
   snd (ALU_Update NewALU (alu_inputs 0x7FFF 1 False False False False True False
          @ [\<lparr>target = 0, val = SixteenChan 5\<rparr>])) =
     Inr (SixteenChan 0x8000, SingleChan False, SingleChan True) \<and>
   ALU_Update NewALU (alu_inputs 0x7FFF 1 False False False False True False
          @ [\<lparr>target = 0, val = SixteenChan 5\<rparr>]) =
     ALU_Update NewALU (alu_inputs 0x7FFF 1 False False False False True False)"
proof -
  have h: "target \<lparr>target = 0, val = SixteenChan 5\<rparr> \<notin> ALU_targets"
    by (simp add: ALU_targets_def Target_defs)
  have e: "ALU_Update NewALU (alu_inputs 0x7FFF 1 False False False False True False
          @ [\<lparr>target = 0, val = SixteenChan 5\<rparr>]) =
     ALU_Update NewALU (alu_inputs 0x7FFF 1 False False False False True False)"
    by (simp add: ALU_Update_def ALU_set_foreign [OF h])
  have "snd (ALU_Update NewALU (alu_inputs 0x7FFF 1 False False False False True False)) =
     Inr (SixteenChan 0x8000, SingleChan False, SingleChan True)"
    by (simp add: ALU_Update_inputs alu_reference_def)
  with h e show ?thesis by simp
qed

subsection \<open>The register\<close>

lemma enumerate_pending_current:
  "map current (map (\<lambda>(i, b). b\<lparr>pending := g i b\<rparr>) (enumerate n bs)) = map current bs"
  by (induction bs arbitrary: n) simp_all

lemma enumerate_pending_bits:
  "length bs = 16 \<Longrightarrow>
     map pending (map (\<lambda>(i, b). b\<lparr>pending := bit w i\<rparr>) (enumerate 0 bs)) = map (bit w) [0..<16]"
  by (rule nth_equalityI) (simp_all add: nth_enumerate_eq)

text \<open>
  C6. The word that \<open>Register.Update\<close> reconstructs from its 16 replies does not depend
  on the order of their arrival: for 16 replies that carry the indices 0 to 15 exactly
  once, every permutation of the arrival order yields the same word, whose bit \<open>i\<close> is
  set exactly where the reply tagged \<open>i\<close> carries true.
\<close>

theorem Register_recv_order_independent:
  assumes "mset (map Idx rs) = mset (map int [0..<16])" and "mset rs' = mset rs"
  shows "\<exists>w. recv_loop 16 rs 0 = Some w \<and> recv_loop 16 rs' 0 = Some w \<and>
           (\<forall>i<16. bit w i \<longleftrightarrow> \<lparr>Val = True, Idx = int i\<rparr> \<in> set rs)"
  using recv_loop_perm [OF assms(1)] recv_loop_order [OF assms] by auto

text \<open>Sixteen replies, true at the even indices, arriving in descending and in ascending order.\<close>

theorem Register_recv_order_independent_witness:
  "mset (map Idx (rev (map (\<lambda>i. \<lparr>Val = even i, Idx = int i\<rparr>) [0..<16]))) = mset (map int [0..<16]) \<and>
   mset (map (\<lambda>i. \<lparr>Val = even i, Idx = int i\<rparr>) [0..<16]) =
     mset (rev (map (\<lambda>i. \<lparr>Val = even i, Idx = int i\<rparr>) [0..<16])) \<and>
   (\<exists>w. recv_loop 16 (rev (map (\<lambda>i. \<lparr>Val = even i, Idx = int i\<rparr>) [0..<16])) 0 = Some w \<and>
        recv_loop 16 (map (\<lambda>i. \<lparr>Val = even i, Idx = int i\<rparr>) [0..<16]) 0 = Some w \<and>
        (\<forall>i<16. bit w i \<longleftrightarrow>
           \<lparr>Val = True, Idx = int i\<rparr> \<in> set (rev (map (\<lambda>i. \<lparr>Val = even i, Idx = int i\<rparr>) [0..<16]))))"
proof -
  have h1: "mset (map Idx (rev (map (\<lambda>i. \<lparr>Val = even i, Idx = int i\<rparr>) [0..<16]))) =
      mset (map int [0..<16])"
    by (simp add: comp_def flip: rev_map)
  have h2: "mset (map (\<lambda>i. \<lparr>Val = even i, Idx = int i\<rparr>) [0..<16]) =
     mset (rev (map (\<lambda>i. \<lparr>Val = even i, Idx = int i\<rparr>) [0..<16]))"
    by simp
  from Register_recv_order_independent [OF h1 h2] h1 h2 show ?thesis by blast
qed

text \<open>Hence a call of \<open>Register.Update\<close> returns the same under every schedule of its lanes.\<close>

lemma Register_Update_sched_independent:
  assumes "length (reg_bits reg) = 16" "mset s1 = mset [0..<16]" "mset s2 = mset [0..<16]"
  shows "Register_Update reg inp load c idx s1 = Register_Update reg inp load c idx s2"
  by (simp add: Register_Update_result assms)

text \<open>
  C7. For every 16-bit word \<open>w\<close>, \<open>Update(w, true)\<close>, then \<open>Tick()\<close>, then
  \<open>Update(w', false)\<close> with any \<open>w'\<close> returns \<open>w\<close> from the last call, whatever the
  register held before and however the lanes are scheduled.
\<close>

theorem Register_persistence:
  assumes len: "length (reg_bits reg) = 16"
    and s1: "mset s1 = mset [0..<16]" and s2: "mset s2 = mset [0..<16]"
  shows "\<exists>reg1 out1 m1 reg2 m2.
     Register_Update reg w True c1 i1 s1 = Some (reg1, out1, m1) \<and>
     Register_Update (Register_Tick reg1) w' False c2 i2 s2 = Some (reg2, w, m2)"
proof -
  define reg1 where "reg1 = reg\<lparr>reg_bits := map (\<lambda>(i, b). b\<lparr>pending := (if True then bit w i else current b)\<rparr>)
                                (enumerate 0 (reg_bits reg))\<rparr>"
  have u1: "Register_Update reg w True c1 i1 s1 =
      Some (reg1, horner_sum of_bool 2 (map current (reg_bits reg)),
            send c1 \<lparr>Val16 = horner_sum of_bool 2 (map current (reg_bits reg)), Idx16 = i1\<rparr>)"
    unfolding reg1_def by (rule Register_Update_result [OF len s1])
  have len': "length (reg_bits (Register_Tick reg1)) = 16"
    by (simp add: Register_Tick_def reg1_def len)
  have "map current (reg_bits (Register_Tick reg1)) = map pending (reg_bits reg1)"
    by (simp add: Register_Tick_def Bit_Tick_def comp_def)
  also have "\<dots> = map (bit w) [0..<16]"
    using enumerate_pending_bits [OF len, of w] by (simp add: reg1_def)
  finally have "horner_sum of_bool 2 (map current (reg_bits (Register_Tick reg1))) = take_bit 16 w"
    by (simp only: horner_sum_bit_eq_take_bit)
  then have "horner_sum of_bool 2 (map current (reg_bits (Register_Tick reg1))) = w"
    by (simp add: take_bit_word_eq_self)
  with Register_Update_result [OF len' s2, of w' False c2 i2] u1
  show ?thesis by auto
qed

text \<open>The word \<open>0xFFFF\<close> stored into a register of cleared cells.\<close>

theorem Register_persistence_witness:
  "length (reg_bits \<lparr>reg_bits = replicate 16 \<lparr>current = False, pending = False\<rparr>, reg_c = 0\<rparr>) = 16 \<and>
   mset (rev [0..<16]) = mset [0..<16] \<and> mset [0..<16] = mset [0..<16] \<and>
   (\<exists>reg1 out1 m1 reg2 m2.
     Register_Update \<lparr>reg_bits = replicate 16 \<lparr>current = False, pending = False\<rparr>, reg_c = 0\<rparr>
       0xFFFF True None 0 (rev [0..<16]) = Some (reg1, out1, m1) \<and>
     Register_Update (Register_Tick reg1) 0 False None 0 [0..<16] = Some (reg2, 0xFFFF, m2))"
proof -
  have h1: "length (reg_bits \<lparr>reg_bits = replicate 16 \<lparr>current = False, pending = False\<rparr>, reg_c = 0\<rparr>) = 16"
    by simp
  have h2: "mset (rev [0..<16]) = mset [0..<16]"
    by simp
  have h3: "mset [0..<16] = mset [0..<16]"
    by simp
  from Register_persistence [OF h1 h2 h3, of "0xFFFF" None 0 0 None 0] h1 h2 h3
  show ?thesis by blast
qed

text \<open>
  C9. \<open>Register.Update\<close> is a read of the committed state: for every register, input
  word and load flag, the call returns, leaves the \<open>current\<close> value of every Bit as
  it was, and the word it returns is the bitwise composition of the 16 \<open>current\<close>
  values at the time of the call.
\<close>

theorem Register_Update_frame:
  assumes len: "length (reg_bits reg) = 16" and sched: "mset sched = mset [0..<16]"
  shows "\<exists>reg' out m.
     Register_Update reg inp load c idx sched = Some (reg', out, m) \<and>
     map current (reg_bits reg') = map current (reg_bits reg) \<and>
     (\<forall>i<16. bit out i \<longleftrightarrow> current (reg_bits reg ! i)) \<and>
     out = horner_sum of_bool 2 (map current (reg_bits reg))"
proof -
  define reg' where "reg' = reg\<lparr>reg_bits := map (\<lambda>(i, b). b\<lparr>pending := (if load then bit inp i else current b)\<rparr>)
                                (enumerate 0 (reg_bits reg))\<rparr>"
  define out :: "16 word" where "out = horner_sum of_bool 2 (map current (reg_bits reg))"
  have u: "Register_Update reg inp load c idx sched =
      Some (reg', out, send c \<lparr>Val16 = out, Idx16 = idx\<rparr>)"
    unfolding reg'_def out_def by (rule Register_Update_result [OF len sched])
  have cur: "map current (reg_bits reg') = map current (reg_bits reg)"
    unfolding reg'_def by (simp add: enumerate_pending_current del: map_map)
  have bits: "\<forall>i<16. bit out i \<longleftrightarrow> current (reg_bits reg ! i)"
    by (simp add: out_def bit_horner_sum_bit_word_iff len)
  from u cur bits out_def show ?thesis by blast
qed

text \<open>A register whose cells all hold true, read while loading \<open>0\<close>.\<close>

theorem Register_Update_frame_witness:
  "length (reg_bits \<lparr>reg_bits = replicate 16 \<lparr>current = True, pending = False\<rparr>, reg_c = 1\<rparr>) = 16 \<and>
   mset (rev [0..<16]) = mset [0..<16] \<and>
   (\<exists>reg' out m.
     Register_Update \<lparr>reg_bits = replicate 16 \<lparr>current = True, pending = False\<rparr>, reg_c = 1\<rparr>
       0 True None 0 (rev [0..<16]) = Some (reg', out, m) \<and>
     map current (reg_bits reg') = replicate 16 True \<and>
     out = 0xFFFF)"
proof -
  have h1: "length (reg_bits \<lparr>reg_bits = replicate 16 \<lparr>current = True, pending = False\<rparr>, reg_c = 1\<rparr>) = 16"
    by simp
  have h2: "mset (rev [0..<16]) = mset [0..<16]"
    by simp
  have e: "horner_sum of_bool 2 (map current (replicate 16 \<lparr>current = True, pending = False\<rparr>)) = (0xFFFF :: 16 word)"
    by code_simp
  from Register_Update_frame [OF h1 h2, of 0 True None 0] h1 h2 e
  show ?thesis by auto
qed

text \<open>
  C10. For \<open>Mux.Update\<close> and for \<open>Register.Update\<close>: with a nil channel argument
  nothing is sent and the value is returned all the same; with a channel, exactly one
  message is sent on it, whose value is the value returned and whose index is the
  \<open>idx\<close> argument.
\<close>

theorem Update_channel_send:
  assumes len: "length (reg_bits reg) = 16" and sched: "mset sched = mset [0..<16]"
  shows "(\<exists>v. Mux_Update a b sel None i = (v, []) \<and>
              Mux_Update a b sel (Some ch) i = (v, [(ch, \<lparr>Val = v, Idx = i\<rparr>)])) \<and>
         (\<exists>reg' out. Register_Update reg inp load None idx sched = Some (reg', out, []) \<and>
              Register_Update reg inp load (Some ch') idx sched =
                Some (reg', out, [(ch', \<lparr>Val16 = out, Idx16 = idx\<rparr>)]))"
  by (simp add: Mux_Update_eq Register_Update_result [OF len sched] send_def)

text \<open>A multiplexer call and a register call, each with and without a channel.\<close>

theorem Update_channel_send_witness:
  "length (reg_bits \<lparr>reg_bits = replicate 16 \<lparr>current = True, pending = False\<rparr>, reg_c = 1\<rparr>) = 16 \<and>
   mset [0..<16] = mset [0..<16] \<and>
   (\<exists>v. Mux_Update True False True None 3 = (v, []) \<and>
        Mux_Update True False True (Some 4) 3 = (v, [(4, \<lparr>Val = v, Idx = 3\<rparr>)])) \<and>
   (\<exists>reg' out.
      Register_Update \<lparr>reg_bits = replicate 16 \<lparr>current = True, pending = False\<rparr>, reg_c = 1\<rparr>
        5 False None 9 [0..<16] = Some (reg', out, []) \<and>
      Register_Update \<lparr>reg_bits = replicate 16 \<lparr>current = True, pending = False\<rparr>, reg_c = 1\<rparr>
        5 False (Some 2) 9 [0..<16] = Some (reg', out, [(2, \<lparr>Val16 = out, Idx16 = 9\<rparr>)]))"
proof -
  have h1: "length (reg_bits \<lparr>reg_bits = replicate 16 \<lparr>current = True, pending = False\<rparr>, reg_c = 1\<rparr>) = 16"
    by simp
  have h2: "mset [0..<16] = mset [0..<16]"
    by simp
  from Update_channel_send [OF h1 h2, of True False True 3 4 5 False 9 2] h1 h2
  show ?thesis by blast
qed

end
